theory Spec2Isabelle
  imports Complex_Main "HOL-Library.Multiset"
begin

section \<open>Data model (src/app/lib/types.ts)\<close>

text \<open>
  The game types of \<^verbatim>\<open>types.ts\<close>. Optional members (\<^verbatim>\<open>sentence?: string\<close>) are
  \<open>option\<close>s, \<open>None\<close> standing for \<^verbatim>\<open>undefined\<close>. Counters that the code only ever
  sets to \<open>0\<close>, to a \<^verbatim>\<open>length\<close> or to a count are \<open>nat\<close>; times and answer indices are
  \<open>int\<close>; a question index is used as an array index and is a \<open>nat\<close>. Field names that clash with a HOL constant or with another record's field
  carry a suffix (\<open>id_player\<close>, \<open>sentence_item\<close>, \<open>thumbsUp_voters\<close>).
\<close>

datatype GamePhase =
  lobby | sentence_submission | quiz | drawing | slideshow | leaderboard

record Player =
  id_player :: string
  name :: string
  isHost :: bool
  sentence :: "string option"
  quizScore :: nat
  drawingDataUrl :: "string option"
  assignedSentence :: "string option"
  thumbsUp :: nat
  thumbsDown :: nat

record QuizQuestion =
  id_question :: nat
  question :: string
  options :: "string list"
  correctIndex :: int

text \<open>
  The value type of \<^verbatim>\<open>GameState.reactions\<close>:
  \<^verbatim>\<open>{ thumbsUp: string[]; thumbsDown: string[] }\<close>.
\<close>

record Reactions =
  thumbsUp_voters :: "string list"
  thumbsDown_voters :: "string list"

text \<open>
  \<^verbatim>\<open>quizAnswers: Record<string, number[]>\<close>. A JavaScript array written out of order
  has holes, so an answer array is a list of optional numbers, \<open>None\<close> being a hole.
\<close>

record GameState =
  phase :: GamePhase
  roomCode :: string
  players :: "Player list"
  currentQuestionIndex :: nat
  quizAnswers :: "string \<rightharpoonup> int option list"
  quizTimeRemaining :: int
  drawingTimeRemaining :: int
  currentSlideIndex :: nat
  slideTimeRemaining :: int
  reactions :: "string \<rightharpoonup> Reactions"

definition QUIZ_QUESTIONS :: "QuizQuestion list" where
  "QUIZ_QUESTIONS =
    [\<lparr>id_question = 1, question = ''What is the capital of France?'',
      options = [''London'', ''Berlin'', ''Paris'', ''Madrid''], correctIndex = 2\<rparr>,
     \<lparr>id_question = 2, question = ''Which planet is known as the Red Planet?'',
      options = [''Venus'', ''Mars'', ''Jupiter'', ''Saturn''], correctIndex = 1\<rparr>,
     \<lparr>id_question = 3, question = ''What is 7 '' @ [CHR 0xC3, CHR 0x97] @ '' 8?'',
      options = [''54'', ''56'', ''58'', ''64''], correctIndex = 1\<rparr>,
     \<lparr>id_question = 4, question = ''Who painted the Mona Lisa?'',
      options = [''Van Gogh'', ''Picasso'', ''Da Vinci'', ''Michelangelo''], correctIndex = 2\<rparr>,
     \<lparr>id_question = 5, question = ''What is the largest ocean on Earth?'',
      options = [''Atlantic'', ''Indian'', ''Arctic'', ''Pacific''], correctIndex = 3\<rparr>,
     \<lparr>id_question = 6, question = ''How many continents are there?'',
      options = [''5'', ''6'', ''7'', ''8''], correctIndex = 2\<rparr>,
     \<lparr>id_question = 7, question = ''What gas do plants absorb from the air?'',
      options = [''Oxygen'', ''Nitrogen'', ''Carbon Dioxide'', ''Hydrogen''], correctIndex = 2\<rparr>,
     \<lparr>id_question = 8,
      question = ''Which animal is known as the '' @ [CHR 0x27] @ ''King of the Jungle''
                   @ [CHR 0x27] @ ''?'',
      options = [''Tiger'', ''Elephant'', ''Lion'', ''Gorilla''], correctIndex = 2\<rparr>]"

definition QUIZ_DURATION :: int where
  "QUIZ_DURATION = 90"

definition DRAWING_DURATION :: int where
  "DRAWING_DURATION = 120"

definition createInitialGameState :: "string \<Rightarrow> GameState" where
  "createInitialGameState rc =
     \<lparr>phase = lobby, roomCode = rc, players = [], currentQuestionIndex = 0,
      quizAnswers = Map.empty, quizTimeRemaining = QUIZ_DURATION,
      drawingTimeRemaining = DRAWING_DURATION, currentSlideIndex = 0,
      slideTimeRemaining = 5, reactions = Map.empty\<rparr>"

text \<open>
  The message envelope \<^verbatim>\<open>{ type, payload, senderId }\<close>. The payload is cast at the
  point of use to the shape its type announces, so a message is a tagged union: one
  constructor per type the handler has a case for, carrying \<^verbatim>\<open>senderId\<close> first and then
  the payload's members; \<open>other_message\<close> stands for the remaining types of
  \<^verbatim>\<open>MessageType\<close>, which no case of the host's switch matches.
\<close>

datatype ReactionType = thumbsUp_reaction | thumbsDown_reaction

datatype MessageType =
  player_left_t | start_game_t | start_quiz_t | start_drawing_t | start_slideshow_t
  | end_game_t | update_sentence_t

datatype GameMessage =
    player_joined string string
  | submit_sentence string string
  | submit_quiz_answer string nat int
  | submit_drawing string string
  | submit_reaction string string ReactionType
  | request_sync string
  | game_state_update string GameState
  | other_message MessageType string


section \<open>The transport handle (src/app/lib/networking.ts)\<close>

text \<open>
  \<^verbatim>\<open>GameNetwork\<close>, as far as the game logic reads it. \<^verbatim>\<open>connections\<close> is a
  \<^verbatim>\<open>Map<string, DataConnection>\<close>: an association list in insertion order, each peer id
  with the \<^verbatim>\<open>open\<close> flag of its connection. \<^verbatim>\<open>hostConnection\<close> is \<open>None\<close> for
  \<^verbatim>\<open>null\<close>, else the \<^verbatim>\<open>open\<close> flag. Sending is an effect: every function that sends
  returns the list of messages it hands to \<^verbatim>\<open>conn.send\<close>, each with its channel, in
  the order of the calls.
\<close>

record GameNetwork =
  connections :: "(string \<times> bool) list"
  hostConnection :: "bool option"
  playerId :: string
  isHost_network :: bool

datatype Channel = to_peer string | to_host

type_synonym Sent = "(Channel \<times> GameMessage) list"

definition send :: "GameNetwork \<Rightarrow> GameMessage \<Rightarrow> Sent" where
  "send network message =
     (if isHost_network network then
        concat (map (\<lambda>(peer, is_open). if is_open then [(to_peer peer, message)] else [])
                  (connections network))
      else if hostConnection network = Some True then [(to_host, message)]
      else [])"

definition sendToPlayer :: "GameNetwork \<Rightarrow> string \<Rightarrow> GameMessage \<Rightarrow> Sent" where
  "sendToPlayer network pid message =
     (case map_of (connections network) pid of
        Some True \<Rightarrow> [(to_peer pid, message)]
      | _ \<Rightarrow> [])"

definition broadcastGameState :: "GameNetwork \<Rightarrow> GameState \<Rightarrow> Sent" where
  "broadcastGameState network state = send network (game_state_update (playerId network) state)"

section \<open>The host's reducer (useGameState.handleMessage)\<close>

text \<open>
  \<^verbatim>\<open>playerAnswers[questionIndex] = answerIndex\<close>: an index inside the array overwrites
  the element, an index beyond its end extends the array, leaving holes before the new
  element.
\<close>

definition array_set :: "'a option list \<Rightarrow> nat \<Rightarrow> 'a \<Rightarrow> 'a option list" where
  "array_set xs i v =
     (if i < length xs then xs[i := Some v]
      else xs @ replicate (i - length xs) None @ [Some v])"

text \<open>
  \<^verbatim>\<open>QUIZ_QUESTIONS[idx]?.correctIndex\<close>: \<^verbatim>\<open>undefined\<close> (\<open>None\<close>) beyond the last
  question.
\<close>

definition correctIndex_at :: "nat \<Rightarrow> int option" where
  "correctIndex_at idx =
     (if idx < length QUIZ_QUESTIONS then Some (correctIndex (QUIZ_QUESTIONS ! idx)) else None)"

text \<open>
  The scoring loop
  \<^verbatim>\<open>playerAnswers.forEach((answer, idx) => { if (answer === QUIZ_QUESTIONS[idx]?.correctIndex) score++ })\<close>.
  \<^verbatim>\<open>forEach\<close> skips holes; a recorded answer is a number, which is never
  \<^verbatim>\<open>=== undefined\<close>.
\<close>

fun score_from :: "int option list \<Rightarrow> nat \<Rightarrow> nat \<Rightarrow> nat" where
  "score_from [] idx score = score"
| "score_from (None # rest) idx score = score_from rest (Suc idx) score"
| "score_from (Some answer # rest) idx score =
     score_from rest (Suc idx) (if correctIndex_at idx = Some answer then score + 1 else score)"

definition calculate_score :: "int option list \<Rightarrow> nat" where
  "calculate_score playerAnswers = score_from playerAnswers 0 0"

definition no_reactions :: Reactions where
  "no_reactions = \<lparr>thumbsUp_voters = [], thumbsDown_voters = []\<rparr>"

text \<open>
  The body of the state updater that the host runs for one message, on a state that is
  not \<^verbatim>\<open>null\<close>: the new state and what was sent. Every case but \<^verbatim>\<open>request_sync\<close>
  falls out of the switch to \<^verbatim>\<open>network.broadcastGameState(newState)\<close>; a type with no
  case leaves \<^verbatim>\<open>newState\<close> a copy of \<^verbatim>\<open>prevState\<close>. The quiz and reaction cases write
  into the array or object they read from \<^verbatim>\<open>prevState\<close>; the new state holds that same
  object and the old state is dropped, so the writes are modelled on the new state only.
\<close>

fun hostReduce :: "GameNetwork \<Rightarrow> GameMessage \<Rightarrow> GameState \<Rightarrow> GameState \<times> Sent" where
  "hostReduce network (player_joined senderId playerName) prevState =
     (let newPlayer = \<lparr>id_player = senderId, name = playerName, isHost = False,
                        sentence = None, quizScore = 0, drawingDataUrl = None,
                        assignedSentence = None, thumbsUp = 0, thumbsDown = 0\<rparr>;
          newState = prevState\<lparr>players := players prevState @ [newPlayer]\<rparr>
      in (newState, broadcastGameState network newState))"
| "hostReduce network (submit_sentence senderId s) prevState =
     (let newState = prevState\<lparr>players :=
            map (\<lambda>p. if id_player p = senderId then p\<lparr>sentence := Some s\<rparr> else p)
              (players prevState)\<rparr>
      in (newState, broadcastGameState network newState))"
| "hostReduce network (submit_quiz_answer senderId questionIndex answerIndex) prevState =
     (let playerAnswers0 = (case quizAnswers prevState senderId of None \<Rightarrow> [] | Some a \<Rightarrow> a);
          playerAnswers = array_set playerAnswers0 questionIndex answerIndex;
          score = calculate_score playerAnswers;
          newState = prevState\<lparr>
            quizAnswers := (quizAnswers prevState)(senderId \<mapsto> playerAnswers),
            players :=
              map (\<lambda>p. if id_player p = senderId then p\<lparr>quizScore := score\<rparr> else p)
                (players prevState)\<rparr>
      in (newState, broadcastGameState network newState))"
| "hostReduce network (submit_drawing senderId url) prevState =
     (let newState = prevState\<lparr>players :=
            map (\<lambda>p. if id_player p = senderId then p\<lparr>drawingDataUrl := Some url\<rparr> else p)
              (players prevState)\<rparr>
      in (newState, broadcastGameState network newState))"
| "hostReduce network (submit_reaction senderId targetPlayerId reactionType) prevState =
     (let reactions0 = (case reactions prevState targetPlayerId of
                          None \<Rightarrow> no_reactions | Some r \<Rightarrow> r);
          up = filter (\<lambda>i. i \<noteq> senderId) (thumbsUp_voters reactions0);
          down = filter (\<lambda>i. i \<noteq> senderId) (thumbsDown_voters reactions0);
          reactions1 = (case reactionType of
                          thumbsUp_reaction \<Rightarrow>
                            \<lparr>thumbsUp_voters = up @ [senderId], thumbsDown_voters = down\<rparr>
                        | thumbsDown_reaction \<Rightarrow>
                            \<lparr>thumbsUp_voters = up, thumbsDown_voters = down @ [senderId]\<rparr>);
          newReactions = (reactions prevState)(targetPlayerId \<mapsto> reactions1);
          newState = prevState\<lparr>
            reactions := newReactions,
            players :=
              map (\<lambda>p. if id_player p = targetPlayerId then
                           (let r = (case newReactions (id_player p) of
                                       None \<Rightarrow> no_reactions | Some r \<Rightarrow> r)
                            in p\<lparr>thumbsUp := length (thumbsUp_voters r),
                                 thumbsDown := length (thumbsDown_voters r)\<rparr>)
                         else p)
                (players prevState)\<rparr>
      in (newState, broadcastGameState network newState))"
| "hostReduce network (request_sync senderId) prevState =
     (prevState,
      sendToPlayer network senderId (game_state_update (playerId network) prevState))"
| "hostReduce network (game_state_update senderId payload) prevState =
     (prevState, broadcastGameState network prevState)"
| "hostReduce network (other_message ty senderId) prevState =
     (prevState, broadcastGameState network prevState)"

text \<open>
  \<^verbatim>\<open>handleMessage\<close>, on the hook's state \<^verbatim>\<open>GameState | null\<close>. On the host the
  updater returns a \<^verbatim>\<open>null\<close> state as it is and sends nothing; on a participant only
  \<^verbatim>\<open>game_state_update\<close> is read and replaces the state wholesale.
\<close>

definition handleMessage ::
  "GameNetwork \<Rightarrow> GameMessage \<Rightarrow> GameState option \<Rightarrow> GameState option \<times> Sent" where
  "handleMessage network message gameState =
     (if isHost_network network then
        (case gameState of
           None \<Rightarrow> (None, [])
         | Some prevState \<Rightarrow>
             (Some (fst (hostReduce network message prevState)),
              snd (hostReduce network message prevState)))
      else
        (case message of
           game_state_update senderId newState \<Rightarrow> (Some newState, [])
         | _ \<Rightarrow> (gameState, [])))"

text \<open>
  The handler that \<^verbatim>\<open>createRoom\<close> registers with \<^verbatim>\<open>network.onDisconnection\<close>, run
  when a connection closes.
\<close>

definition onDisconnection ::
  "GameNetwork \<Rightarrow> string \<Rightarrow> GameState option \<Rightarrow> GameState option \<times> Sent" where
  "onDisconnection network pid gameState =
     (case gameState of
        None \<Rightarrow> (None, [])
      | Some prev \<Rightarrow>
          (let newState = prev\<lparr>players := filter (\<lambda>p. id_player p \<noteq> pid) (players prev)\<rparr>
           in (Some newState, broadcastGameState network newState)))"

text \<open>
  The \<^verbatim>\<open>close\<close> event of a connection (\<^verbatim>\<open>setupConnection\<close>): the connection leaves
  the map first, then the handlers run.
\<close>

definition connection_delete :: "GameNetwork \<Rightarrow> string \<Rightarrow> GameNetwork" where
  "connection_delete network peer =
     network\<lparr>connections := filter (\<lambda>c. fst c \<noteq> peer) (connections network)\<rparr>"

definition on_close ::
  "GameNetwork \<Rightarrow> string \<Rightarrow> GameState option \<Rightarrow> GameNetwork \<times> GameState option \<times> Sent" where
  "on_close network peer gameState =
     (let network1 = connection_delete network peer
      in (network1, onDisconnection network1 peer gameState))"

text \<open>Running the host's reducer over a sequence of messages, in arrival order.\<close>

fun run_messages :: "GameNetwork \<Rightarrow> GameState \<Rightarrow> GameMessage list \<Rightarrow> GameState" where
  "run_messages network s [] = s"
| "run_messages network s (m # ms) = run_messages network (fst (hostReduce network m s)) ms"


section \<open>The derangement assigner (startDrawingPhase.createDerangement)\<close>

text \<open>
  The elements \<^verbatim>\<open>{ sentence: string; authorId: string }\<close> that \<^verbatim>\<open>createDerangement\<close>
  permutes.
\<close>

record SentenceItem =
  sentence_item :: string
  authorId :: string

text \<open>
  \<^verbatim>\<open>Math.random()\<close> is a source of numbers in \<open>[0, 1)\<close>: \<open>rnd k\<close> is what its
  \<open>k\<close>-th call returns, and every function that draws from it returns the number of
  calls made so far. \<open>valid_random\<close> is the range that \<^verbatim>\<open>Math.random\<close> promises.
  The numbers are reals: \<^verbatim>\<open>Math.floor(Math.random() * (i + 1))\<close> is one of \<open>0, \<dots>, i\<close>
  in double precision too, and the real-valued source yields each of these indices for
  some number, so what holds for every valid source holds for every run of the code.
\<close>

type_synonym random_source = "nat \<Rightarrow> real"

definition valid_random :: "random_source \<Rightarrow> bool" where
  "valid_random rnd = (\<forall>k. 0 \<le> rnd k \<and> rnd k < 1)"

text \<open>\<^verbatim>\<open>[result[i], result[j]] = [result[j], result[i]]\<close>\<close>

definition swap_elements :: "nat \<Rightarrow> nat \<Rightarrow> 'a list \<Rightarrow> 'a list" where
  "swap_elements i j result = (result[i := result ! j])[j := result ! i]"

text \<open>
  The Fisher-Yates pass
  \<^verbatim>\<open>for (let i = result.length - 1; i > 0; i--) { const j = Math.floor(Math.random() * (i + 1)); swap }\<close>,
  started at index \<open>i\<close>.
\<close>

fun fisher_yates :: "random_source \<Rightarrow> nat \<Rightarrow> nat \<Rightarrow> 'a list \<Rightarrow> 'a list \<times> nat" where
  "fisher_yates rnd k 0 result = (result, k)"
| "fisher_yates rnd k (Suc i') result =
     (let i = Suc i';
          j = nat \<lfloor>rnd k * real (i + 1)\<rfloor>
      in fisher_yates rnd (Suc k) i' (swap_elements i j result))"

text \<open>
  \<^verbatim>\<open>result.every((item, index) => item.authorId !== items[index].authorId)\<close>; the two
  lists have the same length wherever the code calls it.
\<close>

definition is_derangement_of :: "SentenceItem list \<Rightarrow> SentenceItem list \<Rightarrow> bool" where
  "is_derangement_of result items =
     list_all (\<lambda>(item, index). authorId item \<noteq> authorId (items ! index))
       (zip result [0..<length result])"

text \<open>
  \<^verbatim>\<open>while (!isDerangement && attempts < 100) { shuffle; check; attempts++ }\<close>. Each
  attempt shuffles the outcome of the one before it.
\<close>

function shuffle_attempts ::
  "random_source \<Rightarrow> SentenceItem list \<Rightarrow> SentenceItem list \<Rightarrow> nat \<Rightarrow> bool \<Rightarrow> nat
     \<Rightarrow> SentenceItem list \<times> bool" where
  "shuffle_attempts rnd items result k isDerangement attempts =
     (if \<not> isDerangement \<and> attempts < 100 then
        shuffle_attempts rnd items
          (fst (fisher_yates rnd k (length result - 1) result))
          (snd (fisher_yates rnd k (length result - 1) result))
          (is_derangement_of (fst (fisher_yates rnd k (length result - 1) result)) items)
          (attempts + 1)
      else (result, isDerangement))"
  by pat_completeness auto
termination
  by (relation "measure (\<lambda>(rnd, items, result, k, isDerangement, attempts). 100 - attempts)")
    auto

declare shuffle_attempts.simps [simp del]

text \<open>
  \<^verbatim>\<open>createDerangement\<close>. The fallback \<^verbatim>\<open>rotated.push(rotated.shift()!)\<close> runs only on
  a list of two or more items; its empty case is never reached.
\<close>

definition createDerangement :: "random_source \<Rightarrow> SentenceItem list \<Rightarrow> SentenceItem list" where
  "createDerangement rnd items =
     (if length items < 2 then items
      else
        (case shuffle_attempts rnd items items 0 False 0 of
           (result, isDerangement) \<Rightarrow>
             if \<not> isDerangement then
               (case items of [] \<Rightarrow> [] | first # rest \<Rightarrow> rest @ [first])
             else result))"

section \<open>The drawing-phase transition (useGameState.startDrawingPhase)\<close>

datatype error = TypeError

text \<open>
  The assignment loop
  \<^verbatim>\<open>participants.forEach((player, index) => { const assignedSentence = derangedSentences[index % derangedSentences.length]; assignments[player.id] = assignedSentence.sentence; })\<close>.
  With an empty \<^verbatim>\<open>derangedSentences\<close> the index is \<^verbatim>\<open>index % 0\<close>, which is
  \<^verbatim>\<open>NaN\<close>; the element read is \<^verbatim>\<open>undefined\<close> and reading its \<^verbatim>\<open>sentence\<close> throws a
  \<^verbatim>\<open>TypeError\<close>.
\<close>

fun assign_sentences ::
  "SentenceItem list \<Rightarrow> Player list \<Rightarrow> nat \<Rightarrow> (string \<rightharpoonup> string)
     \<Rightarrow> error + (string \<rightharpoonup> string)" where
  "assign_sentences derangedSentences [] index assignments = Inr assignments"
| "assign_sentences derangedSentences (player # rest) index assignments =
     (if derangedSentences = [] then Inl TypeError
      else assign_sentences derangedSentences rest (Suc index)
             (assignments(id_player player \<mapsto>
                sentence_item (derangedSentences ! (index mod length derangedSentences)))))"

text \<open>\<^verbatim>\<open>filter((p) => p.sentence)\<close>: an absent and an empty sentence are both falsy.\<close>

definition truthy :: "string option \<Rightarrow> bool" where
  "truthy s = (case s of None \<Rightarrow> False | Some t \<Rightarrow> t \<noteq> [])"

text \<open>
  \<^verbatim>\<open>startDrawingPhase\<close>, on the hook's state: the new state and what was broadcast, or
  the error thrown. (The hook's copy of the local player is not part of the shared
  state and is left out.)
\<close>

definition startDrawingPhase ::
  "GameNetwork \<Rightarrow> random_source \<Rightarrow> GameState option
     \<Rightarrow> error + (GameState option \<times> Sent)" where
  "startDrawingPhase network rnd gameState0 =
     (case gameState0 of
        None \<Rightarrow> Inr (None, [])
      | Some gameState \<Rightarrow>
          if \<not> isHost_network network then Inr (Some gameState, [])
          else
            (let participants = filter (\<lambda>p. \<not> isHost p) (players gameState);
                 playersWithSentences = filter (\<lambda>p. truthy (sentence p)) participants;
                 sentences = map (\<lambda>p. \<lparr>sentence_item = the (sentence p),
                                        authorId = id_player p\<rparr>)
                               playersWithSentences;
                 derangedSentences = createDerangement rnd sentences
             in case assign_sentences derangedSentences participants 0 Map.empty of
                  Inl e \<Rightarrow> Inl e
                | Inr assignments \<Rightarrow>
                    (let newState = gameState\<lparr>
                           phase := drawing,
                           drawingTimeRemaining := DRAWING_DURATION,
                           players :=
                             map (\<lambda>p. p\<lparr>assignedSentence :=
                                        (if isHost p then None else assignments (id_player p))\<rparr>)
                               (players gameState)\<rparr>
                     in Inr (Some newState, broadcastGameState network newState))))"

section \<open>Host moderation (useGameState.updatePlayerSentence)\<close>

text \<open>
  The host edits a player's sentence from the moderation views of the sentence and quiz
  phases; the text typed is stored as it is, the empty string included.
\<close>

definition updatePlayerSentence ::
  "GameNetwork \<Rightarrow> string \<Rightarrow> string \<Rightarrow> GameState option \<Rightarrow> GameState option \<times> Sent" where
  "updatePlayerSentence network pid s gameState0 =
     (case gameState0 of
        None \<Rightarrow> (None, [])
      | Some gameState \<Rightarrow>
          if \<not> isHost_network network then (Some gameState, [])
          else
            (let newState = gameState\<lparr>players :=
                   map (\<lambda>p. if id_player p = pid then p\<lparr>sentence := Some s\<rparr> else p)
                     (players gameState)\<rparr>
             in (Some newState, broadcastGameState network newState)))"

section \<open>Notions the properties are stated with\<close>

text \<open>The peers whose connection is open, in the order of the connection map.\<close>

definition open_peers :: "GameNetwork \<Rightarrow> string list" where
  "open_peers network = map fst (filter snd (connections network))"

text \<open>The intents whose case of the reducer writes to the state.\<close>

definition mutating_intent :: "GameMessage \<Rightarrow> bool" where
  "mutating_intent m =
     (case m of
        player_joined _ _ \<Rightarrow> True
      | submit_sentence _ _ \<Rightarrow> True
      | submit_quiz_answer _ _ _ \<Rightarrow> True
      | submit_drawing _ _ \<Rightarrow> True
      | submit_reaction _ _ _ \<Rightarrow> True
      | _ \<Rightarrow> False)"

text \<open>
  Reading answer \<open>i\<close> of an answer array (a hole and an index beyond the end both read
  as nothing), and of a player in a state.
\<close>

definition array_get :: "'a option list \<Rightarrow> nat \<Rightarrow> 'a option" where
  "array_get xs i = (if i < length xs then xs ! i else None)"

definition answer_at :: "GameState \<Rightarrow> string \<Rightarrow> nat \<Rightarrow> int option" where
  "answer_at s p i = (case quizAnswers s p of None \<Rightarrow> None | Some arr \<Rightarrow> array_get arr i)"

text \<open>
  A quiz submission is (sender, question index, answer index). \<open>latest_answer subs p i r\<close>
  is the answer that the last submission of \<open>p\<close> for question \<open>i\<close> in \<open>subs\<close> carries, and
  \<open>r\<close>, what was recorded before, when there is none.
\<close>

fun latest_answer ::
  "(string \<times> nat \<times> int) list \<Rightarrow> string \<Rightarrow> nat \<Rightarrow> int option \<Rightarrow> int option" where
  "latest_answer [] p i recorded = recorded"
| "latest_answer ((senderId, questionIndex, answerIndex) # rest) p i recorded =
     latest_answer rest p i
       (if senderId = p \<and> questionIndex = i then Some answerIndex else recorded)"

definition quiz_message :: "string \<times> nat \<times> int \<Rightarrow> GameMessage" where
  "quiz_message sub =
     (case sub of (senderId, questionIndex, answerIndex) \<Rightarrow>
        submit_quiz_answer senderId questionIndex answerIndex)"

text \<open>The number of questions whose answer, as \<open>answer\<close> gives it, is the correct one.\<close>

definition count_correct :: "(nat \<Rightarrow> int option) \<Rightarrow> nat" where
  "count_correct answer =
     length (filter (\<lambda>i. answer i = Some (correctIndex (QUIZ_QUESTIONS ! i)))
               [0..<length QUIZ_QUESTIONS])"

subsection \<open>A room to run examples in\<close>

definition new_player :: "string \<Rightarrow> string \<Rightarrow> Player" where
  "new_player pid nm =
     \<lparr>id_player = pid, name = nm, isHost = False, sentence = None, quizScore = 0,
      drawingDataUrl = None, assignedSentence = None, thumbsUp = 0, thumbsDown = 0\<rparr>"

definition host_player :: Player where
  "host_player = (new_player ''drawg-host-ABCD'' ''Hana'')\<lparr>isHost := True\<rparr>"

definition example_network :: GameNetwork where
  "example_network =
     \<lparr>connections = [(''alice'', True), (''bob'', True), (''carol'', False)],
      hostConnection = None, playerId = ''drawg-host-ABCD'', isHost_network = True\<rparr>"

definition example_room :: GameState where
  "example_room = (createInitialGameState ''ABCD'')\<lparr>players :=
     [host_player, new_player ''alice'' ''Alice'', new_player ''bob'' ''Bob'']\<rparr>"

definition example_items :: "SentenceItem list" where
  "example_items =
     [\<lparr>sentence_item = ''A'', authorId = ''alice''\<rparr>,
      \<lparr>sentence_item = ''B'', authorId = ''bob''\<rparr>,
      \<lparr>sentence_item = ''C'', authorId = ''carol''\<rparr>]"


text \<open>
  The reactions recorded for a target, with the code's default
  \<^verbatim>\<open>reactions[targetPlayerId] || { thumbsUp: [], thumbsDown: [] }\<close>, and the invariant
  of the voter lists of one target: no voter twice in a list, no voter in both lists.
\<close>

definition reactions_of :: "GameState \<Rightarrow> string \<Rightarrow> Reactions" where
  "reactions_of s target =
     (case reactions s target of None \<Rightarrow> no_reactions | Some r \<Rightarrow> r)"

definition voters_exclusive :: "GameState \<Rightarrow> string \<Rightarrow> bool" where
  "voters_exclusive s target =
     (distinct (thumbsUp_voters (reactions_of s target)) \<and>
      distinct (thumbsDown_voters (reactions_of s target)) \<and>
      set (thumbsUp_voters (reactions_of s target)) \<inter>
        set (thumbsDown_voters (reactions_of s target)) = {})"

text \<open>
  What the drawing-phase transition left each player with: id, authored sentence,
  assigned sentence (nothing when it threw).
\<close>

definition assigned_sentences ::
  "error + (GameState option \<times> Sent) \<Rightarrow> (string \<times> string option \<times> string option) list" where
  "assigned_sentences outcome =
     (case outcome of
        Inr (Some s, sent) \<Rightarrow>
          map (\<lambda>p. (id_player p, sentence p, assignedSentence p)) (players s)
      | _ \<Rightarrow> [])"

text \<open>
  The room as \<^verbatim>\<open>createRoom\<close> leaves it; the room after alice, bob and carol joined
  and each submitted a sentence; that room after the host cleared alice's sentence in
  the moderation view; and a room whose quiz started with no participant, which alice
  then joined.
\<close>

definition created_room :: GameState where
  "created_room = (createInitialGameState ''ABCD'')\<lparr>players := [host_player]\<rparr>"

definition three_sentences_room :: GameState where
  "three_sentences_room =
     run_messages example_network created_room
       [player_joined ''alice'' ''Alice'', player_joined ''bob'' ''Bob'',
        player_joined ''carol'' ''Carol'',
        submit_sentence ''alice'' ''A'', submit_sentence ''bob'' ''B'',
        submit_sentence ''carol'' ''C'']"

definition alice_cleared_room :: GameState where
  "alice_cleared_room =
     the (fst (updatePlayerSentence example_network ''alice'' '''' (Some three_sentences_room)))"

definition late_join_room :: GameState where
  "late_join_room =
     run_messages example_network (created_room\<lparr>phase := quiz\<rparr>)
       [player_joined ''alice'' ''Alice'']"

section \<open>Joining, broadcasting and resynchronising\<close>

lemma send_host:
  assumes "isHost_network network"
  shows "send network message = map (\<lambda>peer. (to_peer peer, message)) (open_peers network)"
proof -
  have "concat (map (\<lambda>(peer, is_open). if is_open then [(to_peer peer, message)] else []) cs)
        = map (\<lambda>peer. (to_peer peer, message)) (map fst (filter snd cs))"
    for cs :: "(string \<times> bool) list"
    by (induction cs) auto
  with assms show ?thesis by (simp add: send_def open_peers_def)
qed

lemma broadcast_host:
  "isHost_network network \<Longrightarrow>
   broadcastGameState network st =
     map (\<lambda>peer. (to_peer peer, game_state_update (playerId network) st)) (open_peers network)"
  by (simp add: broadcastGameState_def send_host)

text \<open>
  C10. A \<^verbatim>\<open>player_joined\<close> message makes the host append, in whatever phase and
  state it is, a new player at the end of \<open>players\<close>: id the message's sender, the given
  name, not host, scores and thumbs zero, no sentence, drawing or assigned sentence.
  Nothing is checked first, so a second \<^verbatim>\<open>player_joined\<close> of the same sender appends
  a second entry with the same id.
\<close>

theorem player_joined_appends:
  "isHost_network network \<Longrightarrow>
   fst (handleMessage network (player_joined senderId playerName) (Some s))
     = Some (s\<lparr>players := players s @
         [\<lparr>id_player = senderId, name = playerName, isHost = False, sentence = None,
           quizScore = 0, drawingDataUrl = None, assignedSentence = None,
           thumbsUp = 0, thumbsDown = 0\<rparr>]\<rparr>) \<and>
   players (run_messages network s
       [player_joined senderId playerName, player_joined senderId otherName])
     = players s @
         [\<lparr>id_player = senderId, name = playerName, isHost = False, sentence = None,
           quizScore = 0, drawingDataUrl = None, assignedSentence = None,
           thumbsUp = 0, thumbsDown = 0\<rparr>,
          \<lparr>id_player = senderId, name = otherName, isHost = False, sentence = None,
           quizScore = 0, drawingDataUrl = None, assignedSentence = None,
           thumbsUp = 0, thumbsDown = 0\<rparr>]"
  by (simp add: handleMessage_def Let_def)

theorem player_joined_appends_witness:
  "isHost_network example_network \<and>
   fst (handleMessage example_network (player_joined ''alice'' ''Alice again'')
          (Some (example_room\<lparr>phase := quiz\<rparr>)))
     = Some (example_room\<lparr>phase := quiz, players :=
         [host_player, new_player ''alice'' ''Alice'', new_player ''bob'' ''Bob'',
          new_player ''alice'' ''Alice again'']\<rparr>)"
  using player_joined_appends
    [of example_network "''alice''" "''Alice again''" "example_room\<lparr>phase := quiz\<rparr>"]
  by (simp add: example_network_def example_room_def new_player_def)

text \<open>
  C5. When the host handles one of the intents that write to the state
  (\<^verbatim>\<open>player_joined\<close>, \<^verbatim>\<open>submit_sentence\<close>, \<^verbatim>\<open>submit_quiz_answer\<close>,
  \<^verbatim>\<open>submit_drawing\<close>, \<^verbatim>\<open>submit_reaction\<close>), what it sends is exactly one
  \<^verbatim>\<open>game_state_update\<close> per open connection, each carrying the whole new state, and
  nothing to a closed connection.
\<close>

theorem broadcast_after_mutation:
  "isHost_network network \<Longrightarrow> mutating_intent m \<Longrightarrow>
   handleMessage network m (Some s) =
     (Some (fst (hostReduce network m s)),
      map (\<lambda>peer. (to_peer peer,
                  game_state_update (playerId network) (fst (hostReduce network m s))))
        (open_peers network))"
  by (cases m) (simp_all add: mutating_intent_def handleMessage_def Let_def broadcast_host)

theorem broadcast_after_mutation_witness:
  "isHost_network example_network \<and> mutating_intent (submit_sentence ''alice'' ''A cat'') \<and>
   handleMessage example_network (submit_sentence ''alice'' ''A cat'') (Some example_room) =
     (Some (example_room\<lparr>players :=
        [host_player, (new_player ''alice'' ''Alice'')\<lparr>sentence := Some ''A cat''\<rparr>,
         new_player ''bob'' ''Bob'']\<rparr>),
      [(to_peer ''alice'', game_state_update ''drawg-host-ABCD''
          (example_room\<lparr>players :=
             [host_player, (new_player ''alice'' ''Alice'')\<lparr>sentence := Some ''A cat''\<rparr>,
              new_player ''bob'' ''Bob'']\<rparr>)),
       (to_peer ''bob'', game_state_update ''drawg-host-ABCD''
          (example_room\<lparr>players :=
             [host_player, (new_player ''alice'' ''Alice'')\<lparr>sentence := Some ''A cat''\<rparr>,
              new_player ''bob'' ''Bob'']\<rparr>))])"
  using broadcast_after_mutation
    [of example_network "submit_sentence ''alice'' ''A cat''" example_room]
  by (simp add: example_network_def example_room_def host_player_def new_player_def
      mutating_intent_def open_peers_def Let_def)

text \<open>
  C6, as the code has it. A \<^verbatim>\<open>request_sync\<close> leaves the host's state as it is, in
  every phase. If the sender's connection is in the connection map and open, exactly one
  \<^verbatim>\<open>game_state_update\<close> carrying the whole current state is sent, to that sender only;
  otherwise nothing is sent at all. Nothing is ever sent to another participant.
\<close>

theorem request_sync_replies_to_sender_only:
  "isHost_network network \<Longrightarrow>
   handleMessage network (request_sync senderId) (Some s) =
     (Some s,
      if map_of (connections network) senderId = Some True
      then [(to_peer senderId, game_state_update (playerId network) s)] else [])"
  by (auto simp add: handleMessage_def sendToPlayer_def split: option.splits bool.splits)

theorem request_sync_replies_to_sender_only_witness:
  "isHost_network example_network \<and>
   handleMessage example_network (request_sync ''bob'') (Some example_room) =
     (Some example_room,
      [(to_peer ''bob'', game_state_update ''drawg-host-ABCD'' example_room)])"
  using request_sync_replies_to_sender_only [of example_network "''bob''" example_room]
  by (simp add: example_network_def)

text \<open>
  The claim as the specification states it (always exactly one reply) fails when the
  sender's connection is not open: carol's connection is closed, and her
  \<^verbatim>\<open>request_sync\<close> is answered by nothing.
\<close>

theorem request_sync_closed_connection_no_reply:
  "handleMessage example_network (request_sync ''carol'') (Some example_room)
     = (Some example_room, [])"
  by (simp add: handleMessage_def sendToPlayer_def example_network_def)

section \<open>Drawings\<close>

text \<open>
  C7, as the code has it. A \<^verbatim>\<open>submit_drawing\<close> sets the \<open>drawingDataUrl\<close> of every
  player with the sender's id to the submitted value, whether or not one was set before
  (the last submission wins). It leaves the \<open>drawingDataUrl\<close> of every other player as it
  is, and so does every other message; \<^verbatim>\<open>player_joined\<close> adds a player without one.
\<close>

theorem drawingDataUrl_last_submission_wins:
  "map drawingDataUrl (players (fst (hostReduce network m s))) =
     (case m of
        submit_drawing senderId url \<Rightarrow>
          map (\<lambda>p. if id_player p = senderId then Some url else drawingDataUrl p) (players s)
      | player_joined senderId playerName \<Rightarrow> map drawingDataUrl (players s) @ [None]
      | _ \<Rightarrow> map drawingDataUrl (players s))"
  by (cases m) (simp_all add: Let_def comp_def if_distrib cong: if_cong)

theorem drawingDataUrl_last_submission_wins_witness:
  "map drawingDataUrl (players (fst (hostReduce example_network
       (submit_drawing ''bob'' ''data:bob'')
       (run_messages example_network example_room [submit_drawing ''alice'' ''data:first''])))) =
     [None, Some ''data:first'', Some ''data:bob'']"
  using drawingDataUrl_last_submission_wins [of example_network
      "submit_drawing ''bob'' ''data:bob''"
      "run_messages example_network example_room [submit_drawing ''alice'' ''data:first'']"]
  by (simp add: example_room_def host_player_def new_player_def Let_def)

text \<open>
  The claim as the specification states it (a drawing, once set, is not reassigned) fails:
  alice's second \<^verbatim>\<open>submit_drawing\<close> replaces her first drawing.
\<close>

theorem drawingDataUrl_reassigned_by_second_submission:
  "map drawingDataUrl (players (run_messages example_network example_room
       [submit_drawing ''alice'' ''data:first''])) = [None, Some ''data:first'', None] \<and>
   map drawingDataUrl (players (run_messages example_network example_room
       [submit_drawing ''alice'' ''data:first'', submit_drawing ''alice'' ''data:second'']))
     = [None, Some ''data:second'', None]"
  by (simp add: example_room_def host_player_def new_player_def Let_def)

section \<open>Disconnection\<close>

text \<open>
  C9. When a participant's connection closes, the host's new state is the old one with
  the players of that id filtered out of \<open>players\<close>, the others in their order; every
  other field, \<open>quizAnswers\<close> and \<open>reactions\<close> among them, is as before; and the new state
  is broadcast to the open connections.
\<close>

theorem disconnection_removes_player:
  "isHost_network network \<Longrightarrow>
   onDisconnection network pid (Some s) =
     (Some (s\<lparr>players := filter (\<lambda>p. id_player p \<noteq> pid) (players s)\<rparr>),
      map (\<lambda>peer. (to_peer peer, game_state_update (playerId network)
                     (s\<lparr>players := filter (\<lambda>p. id_player p \<noteq> pid) (players s)\<rparr>)))
        (open_peers network))"
  by (simp add: onDisconnection_def Let_def broadcast_host)

theorem disconnection_removes_player_witness:
  "isHost_network (connection_delete example_network ''alice'') \<and>
   on_close example_network ''alice''
       (Some (example_room\<lparr>phase := quiz, quizAnswers := [''alice'' \<mapsto> [Some 2]]\<rparr>)) =
     (example_network\<lparr>connections := [(''bob'', True), (''carol'', False)]\<rparr>,
      Some (example_room\<lparr>phase := quiz, quizAnswers := [''alice'' \<mapsto> [Some 2]],
                          players := [host_player, new_player ''bob'' ''Bob'']\<rparr>),
      [(to_peer ''bob'', game_state_update ''drawg-host-ABCD''
          (example_room\<lparr>phase := quiz, quizAnswers := [''alice'' \<mapsto> [Some 2]],
                         players := [host_player, new_player ''bob'' ''Bob'']\<rparr>))])"
  using disconnection_removes_player [of "connection_delete example_network ''alice''"
      "''alice''" "example_room\<lparr>phase := quiz, quizAnswers := [''alice'' \<mapsto> [Some 2]]\<rparr>"]
  by (simp add: example_network_def example_room_def host_player_def new_player_def
      connection_delete_def open_peers_def on_close_def Let_def)

section \<open>Quiz answers and scores\<close>

lemma array_get_set:
  "array_get (array_set xs q v) i = (if i = q then Some v else array_get xs i)"
  by (auto simp: array_get_def array_set_def nth_append nth_list_update)

lemma array_get_Nil: "array_get [] i = None"
  by (simp add: array_get_def)

lemma array_set_length: "length (array_set xs q v) = max (length xs) (Suc q)"
  by (simp add: array_set_def)

lemma array_set_idem: "array_set (array_set xs q v) q v = array_set xs q v"
proof -
  let ?ys = "array_set xs q v"
  have q: "q < length ?ys" by (simp add: array_set_length)
  have "array_get ?ys q = Some v" by (simp add: array_get_set)
  with q have "?ys ! q = Some v" by (simp add: array_get_def)
  with q have "?ys[q := Some v] = ?ys" by (simp add: list_update_same_conv)
  with q show ?thesis by (subst array_set_def) simp
qed

lemma quiz_message_simp [simp]:
  "quiz_message (senderId, q, a) = submit_quiz_answer senderId q a"
  by (simp add: quiz_message_def)

text \<open>The scoring loop counts the pairs of a recorded answer and its index that match.\<close>

lemma score_from_zip:
  "score_from xs idx acc =
     acc + length (filter (\<lambda>(x, j). x \<noteq> None \<and> correctIndex_at j = x)
                     (zip xs [idx..<idx + length xs]))"
proof (induction xs idx acc rule: score_from.induct)
  case (1 idx score)
  then show ?case by simp
next
  case (2 rest idx score)
  then show ?case by (simp add: upt_conv_Cons del: upt_Suc)
next
  case (3 answer rest idx score)
  then show ?case by (simp add: upt_conv_Cons del: upt_Suc)
qed

lemma zip_indices: "zip xs [0..<length xs] = map (\<lambda>i. (xs ! i, i)) [0..<length xs]"
  by (rule nth_equalityI) simp_all

lemma calculate_score_count: "calculate_score arr = count_correct (array_get arr)"
proof -
  let ?Q = "\<lambda>i. arr ! i \<noteq> None \<and> correctIndex_at i = arr ! i"
  have "calculate_score arr = length (filter ?Q [0..<length arr])"
    by (simp add: calculate_score_def score_from_zip zip_indices filter_map comp_def)
  also have "\<dots> = card {i. i < length arr \<and> ?Q i}"
    by (simp add: length_filter_conv_card cong: conj_cong)
  also have "{i. i < length arr \<and> ?Q i} =
      {i. i < length QUIZ_QUESTIONS \<and>
          array_get arr i = Some (correctIndex (QUIZ_QUESTIONS ! i))}"
    by (auto simp: array_get_def correctIndex_at_def split: if_splits)
  also have "card \<dots> = count_correct (array_get arr)"
    by (simp add: count_correct_def length_filter_conv_card cong: conj_cong)
  finally show ?thesis .
qed

lemma answer_at_step:
  "answer_at (fst (hostReduce network (submit_quiz_answer senderId q a) s)) p i =
     (if senderId = p \<and> q = i then Some a else answer_at s p i)"
  by (auto simp: answer_at_def Let_def array_get_set array_get_Nil split: option.splits)

lemma run_messages_append:
  "run_messages network s (ms @ ms') = run_messages network (run_messages network s ms) ms'"
  by (induction ms arbitrary: s) simp_all

lemma answer_at_run:
  "answer_at (run_messages network s (map quiz_message subs)) p i =
     latest_answer subs p i (answer_at s p i)"
proof (induction subs arbitrary: s)
  case Nil
  then show ?case by simp
next
  case (Cons sub subs)
  obtain sender q a where sub: "sub = (sender, q, a)" by (cases sub)
  show ?case
    by (simp add: sub Cons.IH answer_at_step del: hostReduce.simps)
qed

lemma quiz_step_score:
  assumes "pl \<in> set (players (fst (hostReduce network (submit_quiz_answer p q a) s)))"
    and "id_player pl = p"
  shows "quizScore pl =
     count_correct (answer_at (fst (hostReduce network (submit_quiz_answer p q a) s)) p)"
proof -
  have "answer_at (fst (hostReduce network (submit_quiz_answer p q a) s)) p
        = array_get (array_set (case quizAnswers s p of None \<Rightarrow> [] | Some a \<Rightarrow> a) q a)"
    by (rule ext) (simp add: answer_at_def Let_def)
  moreover obtain x where "x \<in> set (players s)"
      "pl = (if id_player x = p then x\<lparr>quizScore := calculate_score
               (array_set (case quizAnswers s p of None \<Rightarrow> [] | Some a \<Rightarrow> a) q a)\<rparr> else x)"
    using assms(1) by (auto simp: Let_def)
  ultimately show ?thesis using assms(2)
    by (simp add: calculate_score_count split: if_splits)
qed

lemma quiz_step_replay:
  "fst (hostReduce network (submit_quiz_answer p q a)
          (fst (hostReduce network (submit_quiz_answer p q a) s)))
   = fst (hostReduce network (submit_quiz_answer p q a) s)"
  by (simp add: Let_def array_set_idem comp_def if_distrib cong: if_cong)

text \<open>
  C1. Let the host's reducer process any sequence of \<^verbatim>\<open>submit_quiz_answer\<close> messages
  (any senders, any question indices, duplicates and out-of-order indices included)
  from any state, and let the last of them come from \<open>p\<close>. Then every player with id
  \<open>p\<close> has as \<open>quizScore\<close> the number of questions at which the latest answer recorded
  for \<open>p\<close> is that question's \<open>correctIndex\<close>; and handling the last message once more
  gives the same state again.
\<close>

theorem quiz_score_counts_latest_answers:
  "(\<forall>pl \<in> set (players (run_messages network s (map quiz_message (earlier @ [(p, q, a)])))).
      id_player pl = p \<longrightarrow>
      quizScore pl =
        count_correct (\<lambda>i. latest_answer (earlier @ [(p, q, a)]) p i (answer_at s p i)))
   \<and> fst (hostReduce network (submit_quiz_answer p q a)
             (run_messages network s (map quiz_message (earlier @ [(p, q, a)]))))
       = run_messages network s (map quiz_message (earlier @ [(p, q, a)]))"
proof -
  let ?mid = "run_messages network s (map quiz_message earlier)"
  let ?end = "run_messages network s (map quiz_message (earlier @ [(p, q, a)]))"
  have e: "?end = fst (hostReduce network (submit_quiz_answer p q a) ?mid)"
    by (simp add: run_messages_append del: hostReduce.simps)
  have "answer_at ?end p = (\<lambda>i. latest_answer (earlier @ [(p, q, a)]) p i (answer_at s p i))"
    by (rule ext) (rule answer_at_run)
  then have "\<forall>pl \<in> set (players ?end). id_player pl = p \<longrightarrow>
      quizScore pl =
        count_correct (\<lambda>i. latest_answer (earlier @ [(p, q, a)]) p i (answer_at s p i))"
    using quiz_step_score [of _ network p q a ?mid] unfolding e [symmetric] by metis
  moreover have "fst (hostReduce network (submit_quiz_answer p q a) ?end) = ?end"
    unfolding e by (rule quiz_step_replay)
  ultimately show ?thesis by blast
qed

text \<open>
  Alice answers question 0 wrongly, question 2 rightly (leaving a hole at question 1),
  bob answers in between, and alice then answers question 0 rightly, twice: her score
  is 2.
\<close>

theorem quiz_score_counts_latest_answers_witness:
  "players (run_messages example_network example_room
       (map quiz_message
          [(''alice'', 0, 1), (''alice'', 2, 1), (''bob'', 0, 2), (''alice'', 0, 2),
           (''alice'', 0, 2)])) ! 1
     = (new_player ''alice'' ''Alice'')\<lparr>quizScore := 2\<rparr> \<and>
   count_correct (\<lambda>i. latest_answer
          [(''alice'', 0, 1), (''alice'', 2, 1), (''bob'', 0, 2), (''alice'', 0, 2),
           (''alice'', 0, 2)] ''alice'' i (answer_at example_room ''alice'' i)) = 2 \<and>
   fst (hostReduce example_network (submit_quiz_answer ''alice'' 0 2)
          (run_messages example_network example_room
             (map quiz_message
                [(''alice'', 0, 1), (''alice'', 2, 1), (''bob'', 0, 2), (''alice'', 0, 2),
                 (''alice'', 0, 2)])))
     = run_messages example_network example_room
         (map quiz_message
            [(''alice'', 0, 1), (''alice'', 2, 1), (''bob'', 0, 2), (''alice'', 0, 2),
             (''alice'', 0, 2)])"
proof -
  have pl: "players (run_messages example_network example_room
       (map quiz_message
          [(''alice'', 0, 1), (''alice'', 2, 1), (''bob'', 0, 2), (''alice'', 0, 2),
           (''alice'', 0, 2)])) ! 1
     = (new_player ''alice'' ''Alice'')\<lparr>quizScore := 2\<rparr>"
    by (simp add: example_room_def createInitialGameState_def host_player_def new_player_def
        Let_def array_set_def calculate_score_def correctIndex_at_def QUIZ_QUESTIONS_def)
  have cnt: "count_correct (\<lambda>i. latest_answer
          [(''alice'', 0, 1), (''alice'', 2, 1), (''bob'', 0, 2), (''alice'', 0, 2),
           (''alice'', 0, 2)] ''alice'' i (answer_at example_room ''alice'' i)) = 2"
    by code_simp
  note replay = quiz_score_counts_latest_answers [of example_network example_room
      "[(''alice'', 0, 1), (''alice'', 2, 1), (''bob'', 0, 2), (''alice'', 0, 2)]"
      "''alice''" 0 2, unfolded append.simps, THEN conjunct2]
  from pl cnt replay show ?thesis by (intro conjI)
qed

section \<open>Reactions\<close>

lemma reactions_of_step:
  "reactions_of (fst (hostReduce network (submit_reaction voter t rt) s)) target =
     (if t = target then
        (case rt of
           thumbsUp_reaction \<Rightarrow>
             \<lparr>thumbsUp_voters =
                filter (\<lambda>i. i \<noteq> voter) (thumbsUp_voters (reactions_of s t)) @ [voter],
              thumbsDown_voters =
                filter (\<lambda>i. i \<noteq> voter) (thumbsDown_voters (reactions_of s t))\<rparr>
         | thumbsDown_reaction \<Rightarrow>
             \<lparr>thumbsUp_voters =
                filter (\<lambda>i. i \<noteq> voter) (thumbsUp_voters (reactions_of s t)),
              thumbsDown_voters =
                filter (\<lambda>i. i \<noteq> voter) (thumbsDown_voters (reactions_of s t)) @ [voter]\<rparr>)
      else reactions_of s target)"
  by (cases rt) (simp_all add: reactions_of_def Let_def)

lemma reactions_other_messages:
  "\<forall>voter t rt. m \<noteq> submit_reaction voter t rt \<Longrightarrow>
   reactions (fst (hostReduce network m s)) = reactions s"
  by (cases m) (simp_all add: Let_def)

lemma voters_exclusive_step:
  assumes "voters_exclusive s target"
  shows "voters_exclusive (fst (hostReduce network m s)) target"
proof (cases "\<exists>voter t rt. m = submit_reaction voter t rt")
  case True
  then obtain voter t rt where m: "m = submit_reaction voter t rt" by blast
  show ?thesis
    using assms unfolding m voters_exclusive_def reactions_of_step
    by (cases rt) auto
next
  case False
  then have "reactions (fst (hostReduce network m s)) = reactions s"
    by (intro reactions_other_messages) simp
  with assms show ?thesis by (simp add: voters_exclusive_def reactions_of_def)
qed

lemma voters_exclusive_run:
  "voters_exclusive s target \<Longrightarrow> voters_exclusive (run_messages network s ms) target"
  by (induction ms arbitrary: s) (simp_all add: voters_exclusive_step del: hostReduce.simps)

lemma count_list_filter_neq: "count_list (filter (\<lambda>i. i \<noteq> v) xs) v = 0"
  by (induction xs) auto

lemma reaction_replaces:
  "count_list (thumbsUp_voters (reactions_of
       (fst (hostReduce network (submit_reaction voter target rt) s)) target)) voter
     = (if rt = thumbsUp_reaction then 1 else 0) \<and>
   count_list (thumbsDown_voters (reactions_of
       (fst (hostReduce network (submit_reaction voter target rt) s)) target)) voter
     = (if rt = thumbsDown_reaction then 1 else 0)"
  unfolding reactions_of_step by (cases rt) (simp_all add: count_list_filter_neq)

lemma reaction_players:
  "players (fst (hostReduce network (submit_reaction voter target rt) s)) =
     map (\<lambda>p. if id_player p = target then
            p\<lparr>thumbsUp := length (thumbsUp_voters (reactions_of
                 (fst (hostReduce network (submit_reaction voter target rt) s)) target)),
              thumbsDown := length (thumbsDown_voters (reactions_of
                 (fst (hostReduce network (submit_reaction voter target rt) s)) target))\<rparr>
          else p) (players s)"
  by (cases rt) (simp_all add: Let_def reactions_of_def)

lemma reaction_counts:
  assumes "p \<in> set (players (fst (hostReduce network (submit_reaction voter target rt) s)))"
    and "id_player p = target"
  shows "thumbsUp p = length (thumbsUp_voters (reactions_of
            (fst (hostReduce network (submit_reaction voter target rt) s)) target))
       \<and> thumbsDown p = length (thumbsDown_voters (reactions_of
            (fst (hostReduce network (submit_reaction voter target rt) s)) target))"
proof -
  let ?R = "reactions_of (fst (hostReduce network (submit_reaction voter target rt) s)) target"
  from assms(1) obtain x where x: "x \<in> set (players s)"
    "p = (if id_player x = target then
            x\<lparr>thumbsUp := length (thumbsUp_voters ?R),
              thumbsDown := length (thumbsDown_voters ?R)\<rparr>
          else x)"
    unfolding reaction_players by auto
  from x(2) assms(2) have "id_player x = target" by (simp split: if_splits)
  with x(2) show ?thesis by simp
qed

lemma reaction_switch_back:
  "fst (hostReduce network (submit_reaction voter target thumbsUp_reaction)
     (fst (hostReduce network (submit_reaction voter target thumbsDown_reaction)
        (fst (hostReduce network (submit_reaction voter target thumbsUp_reaction) s)))))
   = fst (hostReduce network (submit_reaction voter target thumbsUp_reaction) s)"
  by (simp add: Let_def comp_def if_distrib cong: if_cong)

text \<open>
  C2. Start from a state in which the voter lists of \<open>target\<close> have no voter twice and
  no voter in both (the created room, whose \<open>reactions\<close> are empty, is one). After any
  sequence of messages the same holds: every voter is in at most one of the
  \<open>thumbsUp\<close> and \<open>thumbsDown\<close> voter sets of the target. After a further
  \<^verbatim>\<open>submit_reaction\<close> of \<open>voter\<close> on that target, the voter is exactly once in the list
  the reaction names and not in the other, and every player with the target's id has as
  \<open>thumbsUp\<close> and \<open>thumbsDown\<close> the sizes of the two voter sets. Voting up, then down,
  then up again gives back the state after the first vote.
\<close>

theorem reaction_votes_exclusive:
  assumes "voters_exclusive s target"
  shows "voters_exclusive (run_messages network s ms) target \<and>
    (let s1 = fst (hostReduce network (submit_reaction voter target rt)
                     (run_messages network s ms));
         r = reactions_of s1 target
     in voters_exclusive s1 target \<and>
        count_list (thumbsUp_voters r) voter = (if rt = thumbsUp_reaction then 1 else 0) \<and>
        count_list (thumbsDown_voters r) voter = (if rt = thumbsDown_reaction then 1 else 0) \<and>
        (\<forall>p \<in> set (players s1). id_player p = target \<longrightarrow>
           thumbsUp p = card (set (thumbsUp_voters r)) \<and>
           thumbsDown p = card (set (thumbsDown_voters r)))) \<and>
    fst (hostReduce network (submit_reaction voter target thumbsUp_reaction)
      (fst (hostReduce network (submit_reaction voter target thumbsDown_reaction)
        (fst (hostReduce network (submit_reaction voter target thumbsUp_reaction)
           (run_messages network s ms))))))
    = fst (hostReduce network (submit_reaction voter target thumbsUp_reaction)
        (run_messages network s ms))"
proof -
  let ?s0 = "run_messages network s ms"
  let ?s1 = "fst (hostReduce network (submit_reaction voter target rt) ?s0)"
  let ?r = "reactions_of ?s1 target"
  have inv0: "voters_exclusive ?s0 target"
    using assms by (rule voters_exclusive_run)
  then have inv1: "voters_exclusive ?s1 target"
    by (rule voters_exclusive_step)
  then have card: "card (set (thumbsUp_voters ?r)) = length (thumbsUp_voters ?r)"
      "card (set (thumbsDown_voters ?r)) = length (thumbsDown_voters ?r)"
    by (simp_all add: voters_exclusive_def distinct_card)
  have counts: "\<forall>p \<in> set (players ?s1). id_player p = target \<longrightarrow>
      thumbsUp p = card (set (thumbsUp_voters ?r)) \<and>
      thumbsDown p = card (set (thumbsDown_voters ?r))"
    unfolding card using reaction_counts [of _ network voter target rt ?s0] by blast
  show ?thesis
    unfolding Let_def
    using inv0 inv1 counts reaction_replaces [of network voter target rt ?s0]
      reaction_switch_back [of network voter target ?s0]
    by blast
qed

text \<open>
  Bob votes thumbs up on alice's drawing and then thumbs down: he is in her
  \<open>thumbsDown\<close> list only, and her counts are 0 and 1.
\<close>

theorem reaction_votes_exclusive_witness:
  "voters_exclusive example_room ''alice'' \<and>
   voters_exclusive (run_messages example_network example_room
       [submit_reaction ''bob'' ''alice'' thumbsUp_reaction]) ''alice'' \<and>
   reactions_of (fst (hostReduce example_network
       (submit_reaction ''bob'' ''alice'' thumbsDown_reaction)
       (run_messages example_network example_room
          [submit_reaction ''bob'' ''alice'' thumbsUp_reaction]))) ''alice''
     = \<lparr>thumbsUp_voters = [], thumbsDown_voters = [''bob'']\<rparr> \<and>
   players (fst (hostReduce example_network
       (submit_reaction ''bob'' ''alice'' thumbsDown_reaction)
       (run_messages example_network example_room
          [submit_reaction ''bob'' ''alice'' thumbsUp_reaction]))) ! 1
     = (new_player ''alice'' ''Alice'')\<lparr>thumbsUp := 0, thumbsDown := 1\<rparr>"
proof -
  have ok: "voters_exclusive example_room ''alice''"
    by (simp add: voters_exclusive_def reactions_of_def example_room_def
        createInitialGameState_def no_reactions_def)
  have after_up: "voters_exclusive (run_messages example_network example_room
       [submit_reaction ''bob'' ''alice'' thumbsUp_reaction]) ''alice''"
    using reaction_votes_exclusive [OF ok, of example_network
        "[submit_reaction ''bob'' ''alice'' thumbsUp_reaction]" "''bob''" thumbsDown_reaction]
    by (rule conjunct1)
  have voters: "reactions_of (fst (hostReduce example_network
       (submit_reaction ''bob'' ''alice'' thumbsDown_reaction)
       (run_messages example_network example_room
          [submit_reaction ''bob'' ''alice'' thumbsUp_reaction]))) ''alice''
     = \<lparr>thumbsUp_voters = [], thumbsDown_voters = [''bob'']\<rparr>"
    by (simp add: Let_def reactions_of_def example_room_def createInitialGameState_def
        no_reactions_def)
  have counts: "players (fst (hostReduce example_network
       (submit_reaction ''bob'' ''alice'' thumbsDown_reaction)
       (run_messages example_network example_room
          [submit_reaction ''bob'' ''alice'' thumbsUp_reaction]))) ! 1
     = (new_player ''alice'' ''Alice'')\<lparr>thumbsUp := 0, thumbsDown := 1\<rparr>"
    by (simp add: Let_def example_room_def createInitialGameState_def no_reactions_def
        host_player_def new_player_def)
  from ok after_up voters counts show ?thesis by (intro conjI)
qed

section \<open>The derangement\<close>

lemma random_index_le:
  assumes "0 \<le> r" "r < 1"
  shows "nat \<lfloor>r * real (Suc i)\<rfloor> \<le> i"
proof -
  have "r * real (Suc i) < real (Suc i)"
    using assms by (simp add: mult_less_cancel_right2 del: of_nat_Suc)
  then have "\<lfloor>r * real (Suc i)\<rfloor> < int (Suc i)"
    by (simp add: floor_less_iff del: of_nat_Suc)
  then show ?thesis by linarith
qed

lemma swap_elements_mset:
  "i < length xs \<Longrightarrow> j < length xs \<Longrightarrow> mset (swap_elements i j xs) = mset xs"
  unfolding swap_elements_def by (rule mset_swap)

lemma swap_elements_length [simp]: "length (swap_elements i j xs) = length xs"
  by (simp add: swap_elements_def)

lemma fisher_yates_mset:
  "valid_random rnd \<Longrightarrow> i < length result \<Longrightarrow>
   mset (fst (fisher_yates rnd k i result)) = mset result"
proof (induction i arbitrary: k result)
  case 0
  then show ?case by simp
next
  case (Suc i)
  have j: "nat \<lfloor>rnd k * real (Suc (Suc i))\<rfloor> \<le> Suc i"
    using Suc.prems(1) by (intro random_index_le) (simp_all add: valid_random_def)
  have "mset (swap_elements (Suc i) (nat \<lfloor>rnd k * real (Suc (Suc i))\<rfloor>) result) = mset result"
    using j Suc.prems(2) by (intro swap_elements_mset) simp_all
  with Suc show ?case by (simp add: Let_def del: of_nat_Suc)
qed

lemma fisher_yates_length [simp]: "length (fst (fisher_yates rnd k i result)) = length result"
  by (induction i arbitrary: k result) (simp_all add: Let_def del: of_nat_Suc)

lemma is_derangement_of_nth:
  "is_derangement_of result items \<longleftrightarrow>
     (\<forall>i < length result. authorId (result ! i) \<noteq> authorId (items ! i))"
  by (simp add: is_derangement_of_def list_all_length)

lemma shuffle_attempts_mset:
  "valid_random rnd \<Longrightarrow>
   mset (fst (shuffle_attempts rnd items result k isDerangement attempts)) = mset result"
proof (induction rnd items result k isDerangement attempts rule: shuffle_attempts.induct)
  case (1 rnd items result k isDerangement attempts)
  show ?case
  proof (cases "\<not> isDerangement \<and> attempts < 100")
    case True
    show ?thesis
    proof (cases "result = []")
      case True
      with 1 \<open>\<not> isDerangement \<and> attempts < 100\<close> show ?thesis
        by (subst shuffle_attempts.simps) simp
    next
      case False
      then have "mset (fst (fisher_yates rnd k (length result - 1) result)) = mset result"
        using "1.prems" by (intro fisher_yates_mset) simp_all
      with 1 True show ?thesis by (subst shuffle_attempts.simps) simp
    qed
  next
    case False
    then show ?thesis by (subst shuffle_attempts.simps) auto
  qed
qed

lemma shuffle_attempts_accepts:
  "(isDerangement \<longrightarrow> is_derangement_of result items) \<Longrightarrow>
   snd (shuffle_attempts rnd items result k isDerangement attempts) \<Longrightarrow>
   is_derangement_of (fst (shuffle_attempts rnd items result k isDerangement attempts)) items"
proof (induction rnd items result k isDerangement attempts rule: shuffle_attempts.induct)
  case (1 rnd items result k isDerangement attempts)
  show ?case
  proof (cases "\<not> isDerangement \<and> attempts < 100")
    case True
    with "1.prems"(2) have "snd (shuffle_attempts rnd items
          (fst (fisher_yates rnd k (length result - 1) result))
          (snd (fisher_yates rnd k (length result - 1) result))
          (is_derangement_of (fst (fisher_yates rnd k (length result - 1) result)) items)
          (attempts + 1))"
      by (subst (asm) shuffle_attempts.simps) simp
    with True "1.IH" have "is_derangement_of (fst (shuffle_attempts rnd items
          (fst (fisher_yates rnd k (length result - 1) result))
          (snd (fisher_yates rnd k (length result - 1) result))
          (is_derangement_of (fst (fisher_yates rnd k (length result - 1) result)) items)
          (attempts + 1))) items" by simp
    with True show ?thesis by (subst shuffle_attempts.simps) simp
  next
    case False
    with "1.prems" show ?thesis by (subst shuffle_attempts.simps, subst (asm) shuffle_attempts.simps) auto
  qed
qed

lemma rotation_no_fixed_point:
  assumes "distinct (map authorId (first # rest))" "rest \<noteq> []" "i < Suc (length rest)"
  shows "authorId ((rest @ [first]) ! i) \<noteq> authorId ((first # rest) ! i)"
proof -
  let ?n = "Suc (length rest)"
  let ?j = "if i < length rest then Suc i else 0"
  have eq: "(rest @ [first]) ! i = (first # rest) ! ?j"
    using assms(3) by (auto simp: nth_append less_Suc_eq)
  have ne: "?j \<noteq> i" using assms(2,3) by (cases rest) auto
  have "?j < ?n" using assms(3) by auto
  then have neq: "map authorId (first # rest) ! ?j \<noteq> map authorId (first # rest) ! i"
    using assms(1,3) ne by (simp only: nth_eq_iff_index_eq length_map length_Cons not_False_eq_True)
  have a: "map authorId (first # rest) ! ?j = authorId ((first # rest) ! ?j)"
    using \<open>?j < ?n\<close> by (intro nth_map) simp
  have b: "map authorId (first # rest) ! i = authorId ((first # rest) ! i)"
    using assms(3) by (intro nth_map) simp
  from neq have "authorId ((first # rest) ! ?j) \<noteq> authorId ((first # rest) ! i)"
    unfolding a b .
  then show ?thesis unfolding eq .
qed

lemma createDerangement_small: "length items < 2 \<Longrightarrow> createDerangement rnd items = items"
  by (simp add: createDerangement_def)

lemma createDerangement_permutes:
  assumes "valid_random rnd"
  shows "mset (createDerangement rnd items) = mset items"
proof (cases "length items < 2")
  case True then show ?thesis by (simp add: createDerangement_small)
next
  case False
  obtain result isD where r: "shuffle_attempts rnd items items 0 False 0 = (result, isD)"
    by (cases "shuffle_attempts rnd items items 0 False 0")
  have "mset result = mset items"
    using shuffle_attempts_mset [OF assms, of items items 0 False 0] r by simp
  moreover obtain first rest where "items = first # rest" using False by (cases items) auto
  ultimately show ?thesis using False r by (simp add: createDerangement_def)
qed

lemma createDerangement_no_fixed_point:
  assumes "2 \<le> length items" "distinct (map authorId items)" "i < length items"
    and "valid_random rnd"
  shows "authorId (createDerangement rnd items ! i) \<noteq> authorId (items ! i)"
proof -
  obtain result isD where r: "shuffle_attempts rnd items items 0 False 0 = (result, isD)"
    by (cases "shuffle_attempts rnd items items 0 False 0")
  obtain first rest where items: "items = first # rest" "rest \<noteq> []"
    using assms(1) by (cases items; cases "tl items") auto
  show ?thesis
  proof (cases isD)
    case True
    have "is_derangement_of result items"
      using shuffle_attempts_accepts [of False items items rnd 0 0] r True by simp
    moreover have "length result = length items"
      using shuffle_attempts_mset [OF assms(4), of items items 0 False 0] r
      by (metis fst_conv mset_eq_length)
    ultimately have "authorId (result ! i) \<noteq> authorId (items ! i)"
      using assms(3) by (simp add: is_derangement_of_nth)
    then show ?thesis using assms(1) r True by (simp add: createDerangement_def)
  next
    case False
    have "createDerangement rnd items = rest @ [first]"
      using assms(1) r False items by (simp add: createDerangement_def)
    then show ?thesis
      using rotation_no_fixed_point [of first rest i] assms(2,3) items by simp
  qed
qed

lemma createDerangement_two:
  assumes "valid_random rnd" "authorId x \<noteq> authorId y"
  shows "createDerangement rnd [x, y] = [y, x]"
proof -
  let ?r = "createDerangement rnd [x, y]"
  have m: "mset ?r = mset [x, y]" using assms(1) by (rule createDerangement_permutes)
  then have "length ?r = 2" using mset_eq_length by fastforce
  then obtain a b where r: "?r = [a, b]"
    by (cases ?r; cases "tl ?r") auto
  have "authorId (?r ! 0) \<noteq> authorId ([x, y] ! 0)"
    using assms by (intro createDerangement_no_fixed_point) simp_all
  then have ax: "a \<noteq> x" unfolding r by auto
  from m have "mset [a, b] = mset [x, y]" unfolding r .
  then have "a = y \<and> b = x" using ax
    by (auto simp: add_eq_conv_ex)
  then show ?thesis using r by simp
qed

text \<open>
  C3. With \<^verbatim>\<open>Math.random\<close> returning numbers in \<open>[0, 1)\<close>, whatever they are:
  on a list of fewer than two items \<^verbatim>\<open>createDerangement\<close> returns the list as it
  is; on a list of two or more items with pairwise different author ids it returns a
  permutation of the list in which no position holds an item of the author that
  position holds in the input.
\<close>

theorem createDerangement_is_derangement:
  assumes "valid_random rnd"
  shows "(length items < 2 \<longrightarrow> createDerangement rnd items = items) \<and>
         (2 \<le> length items \<and> distinct (map authorId items) \<longrightarrow>
            mset (createDerangement rnd items) = mset items \<and>
            (\<forall>i < length items.
               authorId (createDerangement rnd items ! i) \<noteq> authorId (items ! i)))"
  using assms createDerangement_small createDerangement_permutes
    createDerangement_no_fixed_point
  by blast

text \<open>
  With every random number 0 the first shuffle of three items is accepted; with every
  random number 1/2 no shuffle of them is, and the rotation is returned after 100
  attempts. A single item is returned as it is.
\<close>

theorem createDerangement_is_derangement_witness:
  "valid_random (\<lambda>k. 0) \<and>
   createDerangement (\<lambda>k. 0) example_items =
     [\<lparr>sentence_item = ''B'', authorId = ''bob''\<rparr>,
      \<lparr>sentence_item = ''C'', authorId = ''carol''\<rparr>,
      \<lparr>sentence_item = ''A'', authorId = ''alice''\<rparr>] \<and>
   snd (shuffle_attempts (\<lambda>k. 1 / 2) example_items example_items 0 False 0) = False \<and>
   createDerangement (\<lambda>k. 1 / 2) example_items =
     [\<lparr>sentence_item = ''B'', authorId = ''bob''\<rparr>,
      \<lparr>sentence_item = ''C'', authorId = ''carol''\<rparr>,
      \<lparr>sentence_item = ''A'', authorId = ''alice''\<rparr>] \<and>
   mset (createDerangement (\<lambda>k. 0) example_items) = mset example_items \<and>
   createDerangement (\<lambda>k. 0) [\<lparr>sentence_item = ''A'', authorId = ''alice''\<rparr>] =
     [\<lparr>sentence_item = ''A'', authorId = ''alice''\<rparr>]"
proof -
  have v: "valid_random (\<lambda>k. 0)" by (simp add: valid_random_def)
  have d: "2 \<le> length example_items \<and> distinct (map authorId example_items)"
    by (simp add: example_items_def)
  have first: "createDerangement (\<lambda>k. 0) example_items =
     [\<lparr>sentence_item = ''B'', authorId = ''bob''\<rparr>,
      \<lparr>sentence_item = ''C'', authorId = ''carol''\<rparr>,
      \<lparr>sentence_item = ''A'', authorId = ''alice''\<rparr>]"
    by code_simp
  have never: "snd (shuffle_attempts (\<lambda>k. 1 / 2) example_items example_items 0 False 0) = False"
    by code_simp
  have rotated: "createDerangement (\<lambda>k. 1 / 2) example_items =
     [\<lparr>sentence_item = ''B'', authorId = ''bob''\<rparr>,
      \<lparr>sentence_item = ''C'', authorId = ''carol''\<rparr>,
      \<lparr>sentence_item = ''A'', authorId = ''alice''\<rparr>]"
    by code_simp
  have perm: "mset (createDerangement (\<lambda>k. 0) example_items) = mset example_items"
    using createDerangement_is_derangement [OF v, of example_items] d by blast
  have single: "createDerangement (\<lambda>k. 0) [\<lparr>sentence_item = ''A'', authorId = ''alice''\<rparr>] =
     [\<lparr>sentence_item = ''A'', authorId = ''alice''\<rparr>]"
    using createDerangement_is_derangement
      [OF v, of "[\<lparr>sentence_item = ''A'', authorId = ''alice''\<rparr>]"] by simp
  from v first never rotated perm single show ?thesis by (intro conjI)
qed

section \<open>Assigning sentences to drawers\<close>

text \<open>
  C4 says that after \<^verbatim>\<open>startDrawingPhase\<close> no participant who authored a sentence is
  assigned that sentence, also when some participants authored none. The code breaks
  this: the assignment loop indexes the deranged list by the participant's position
  among all participants, not among the authors. In the room where alice, bob and carol
  each submitted a sentence and the host then cleared alice's, the authors are bob and
  carol, the only derangement of their two sentences is the swap, and whatever the random
  numbers are bob is assigned his own sentence B and carol her own sentence C.
\<close>

theorem startDrawingPhase_assigns_own_sentence:
  assumes "valid_random rnd"
  shows "assigned_sentences (startDrawingPhase example_network rnd (Some alice_cleared_room)) =
     [(''drawg-host-ABCD'', None, None),
      (''alice'', Some '''', Some ''C''),
      (''bob'', Some ''B'', Some ''B''),
      (''carol'', Some ''C'', Some ''C'')]"
  using assms
  by (simp add: assigned_sentences_def startDrawingPhase_def alice_cleared_room_def
      three_sentences_room_def updatePlayerSentence_def example_network_def created_room_def
      host_player_def new_player_def Let_def truthy_def createDerangement_two)

theorem startDrawingPhase_assigns_own_sentence_witness:
  "valid_random (\<lambda>k. 0) \<and>
   assigned_sentences
       (startDrawingPhase example_network (\<lambda>k. 0) (Some alice_cleared_room)) =
     [(''drawg-host-ABCD'', None, None),
      (''alice'', Some '''', Some ''C''),
      (''bob'', Some ''B'', Some ''B''),
      (''carol'', Some ''C'', Some ''C'')]"
proof -
  have v: "valid_random (\<lambda>k. 0)" by (simp add: valid_random_def)
  from v startDrawingPhase_assigns_own_sentence [OF v] show ?thesis by (intro conjI)
qed

text \<open>
  C8 says that no operation throws, \<^verbatim>\<open>startDrawingPhase\<close> with no authored sentence
  included. The code breaks this: in the room whose only participant, alice, joined
  during the quiz and so authored no sentence, the deranged list is empty, the first
  round of the assignment loop reads \<^verbatim>\<open>derangedSentences[0 % 0]\<close>, which is
  \<^verbatim>\<open>undefined\<close>, and reading its \<^verbatim>\<open>sentence\<close> throws a \<^verbatim>\<open>TypeError\<close>, whatever the
  random numbers are.
\<close>

theorem startDrawingPhase_throws_without_sentences:
  "startDrawingPhase example_network rnd (Some late_join_room) = Inl TypeError"
  by (simp add: startDrawingPhase_def late_join_room_def created_room_def example_network_def
      host_player_def new_player_def Let_def truthy_def createDerangement_def)

end
